theory Spec2Isabelle
  imports Complex_Main
begin

section \<open>Data model of \<open>evaluation_tools.py\<close>\<close>

text \<open>
  Python floats and numpy float64 values are modelled as exact reals: every comparison
  and every quotient is the mathematical one. The rounding of float64 arithmetic is
  modelled where the values of the results depend on it, for the means and variances
  of the drivers, in a section of its own below. A label or prediction vector (a
  one-dimensional array) is a list of reals, a feature matrix is a list of rows.
\<close>

type_synonym vec = "real list"
type_synonym matrix = "real list list"

text \<open>
  The exceptions the module can end with. \<open>ZeroDivisionError\<close> is Python's float
  division by zero, \<open>UnboundLocalError\<close> the read of a local that no iteration has
  bound, \<open>IndexError\<close> an index array reaching outside the data, and \<open>ValueError\<close> what
  the scikit-learn routines raise on input they refuse.
\<close>

datatype error = ZeroDivisionError | UnboundLocalError | IndexError | ValueError

text \<open>
  Console output: a \<open>print\<close> of a fixed string is \<open>Text\<close>, a \<open>print\<close> of an
  f-string with one formatted number is \<open>Metric\<close> with the fixed prefix and the number.
  An exception ends the call with \<open>Inl\<close>; what had been printed before it is not kept.
\<close>

datatype line = Text string | Metric string real

text \<open>
  The classifier \<open>dipnn\<close> is an object of another module. Its capabilities are the
  fields of a record over the type \<open>'s\<close> of its internal parameters, and the drivers
  thread the current parameters through their calls. A conforming classifier is
  assumed: its calls return normally, and \<open>predict\<close> only reads the parameters.
\<close>

record 's classifier =
  set_to_default :: "'s \<Rightarrow> 's"
  train :: "matrix \<Rightarrow> vec \<Rightarrow> 's \<Rightarrow> 's"
  predict :: "'s \<Rightarrow> matrix \<Rightarrow> vec \<times> vec"
  get_the_model_representation :: "'s \<Rightarrow> real \<Rightarrow> int \<Rightarrow> string"

text \<open>
  The imported library routines. \<open>roc_auc_score\<close> may refuse its input.
  \<open>train_test_split\<close> draws from a random state and \<open>time\<close> reads the clock: both
  take and return the state \<open>'w\<close> of the outside world. \<open>kfold_split n_splits seed X\<close>
  stands for \<open>KFold(n_splits, shuffle=True, random_state=seed).split(X)\<close>, the list of
  (train indices, test indices) pairs, or the error the constructor or the split
  raises.
\<close>

record 'w library =
  roc_auc_score :: "vec \<Rightarrow> vec \<Rightarrow> error + real"
  train_test_split :: "matrix \<Rightarrow> vec \<Rightarrow> real \<Rightarrow> 'w \<Rightarrow> error + ((matrix \<times> matrix \<times> vec \<times> vec) \<times> 'w)"
  time :: "'w \<Rightarrow> real \<times> 'w"
  kfold_split :: "int \<Rightarrow> int \<Rightarrow> matrix \<Rightarrow> error + (nat list \<times> nat list) list"

section \<open>\<open>EvaluationTools.test\<close>\<close>

text \<open>The five float accumulators of lines 24 to 28.\<close>

record counts =
  n_errors :: real
  N :: real
  P :: real
  TN :: real
  TP :: real

definition no_counts :: counts where
  "no_counts = \<lparr>n_errors = 0, N = 0, P = 0, TN = 0, TP = 0\<rparr>"

text \<open>The body of the loop of lines 29 to 39, on one pair \<open>(y_p, y)\<close>.\<close>

definition tally :: "counts \<Rightarrow> real \<times> real \<Rightarrow> counts" where
  "tally c pr =
     (case pr of (y_p, y) \<Rightarrow>
        let c1 = (if y_p \<noteq> y then c\<lparr>n_errors := n_errors c + 1\<rparr> else c);
            c2 = (if y = 1
                  then (let c' = c1\<lparr>P := P c1 + 1\<rparr>
                        in if y_p = 1 then c'\<lparr>TP := TP c' + 1\<rparr> else c')
                  else c1);
            c3 = (if y = 0
                  then (let c' = c2\<lparr>N := N c2 + 1\<rparr>
                        in if y_p = 0 then c'\<lparr>TN := TN c' + 1\<rparr> else c')
                  else c2)
        in c3)"

text \<open>The list comprehension of line 23.\<close>

definition threshold_scores :: "real \<Rightarrow> vec \<Rightarrow> vec" where
  "threshold_scores new_threshold Y_predicted =
     map (\<lambda>score. if score \<ge> new_threshold then 1 else 0) Y_predicted"

text \<open>The list comprehension of line 50.\<close>

definition binarize_labels :: "vec \<Rightarrow> vec" where
  "binarize_labels Y_test = map (\<lambda>y. if y > 0.5 then 1 else 0) Y_test"

text \<open>
  Lines 24 to 58: the metrics of a binary prediction vector and a score vector against
  the labels. \<open>zip\<close> stops at the shorter of its two arguments, as Python's does. The
  quotient of line 58 divides two Python floats, so it raises on an empty prediction
  vector; the call of \<open>roc_auc_score\<close> on line 50 comes before it.
\<close>

definition test_metrics ::
  "(vec \<Rightarrow> vec \<Rightarrow> error + real) \<Rightarrow> vec \<Rightarrow> vec \<Rightarrow> vec \<Rightarrow>
   error + ((real \<times> real \<times> real \<times> real \<times> real \<times> real) \<times> line list)" where
  "test_metrics roc Y_predicted_binary Y_predicted Y_test =
     (let c = foldl tally no_counts (zip Y_predicted_binary Y_test);
          (TP_rate, out1) =
             (if P c = 0 then (1, [Text ''No positive examples were found!''])
              else (TP c / P c, []));
          (TN_rate, out2) =
             (if N c = 0 then (1, [Text ''No negative examples were found!''])
              else (TN c / N c, []))
      in (case roc (binarize_labels Y_test) Y_predicted of
            Inl e \<Rightarrow> Inl e
          | Inr roc_auc_score_value \<Rightarrow>
              (let (precision, out3) =
                     (if TP c + N c - TN c \<noteq> 0 then (TP c / (TP c + N c - TN c), [])
                      else (0, [Text ''No true positive examples were found!'']));
                   recall = TP_rate
               in if length Y_predicted_binary = 0 then Inl ZeroDivisionError
                  else Inr ((1 - n_errors c / real (length Y_predicted_binary),
                             TP_rate, TN_rate, precision, recall, roc_auc_score_value),
                            out1 @ out2 @ out3))))"

text \<open>
  Lines 21 to 23, then the rest: the model's own binary output is replaced by the
  thresholded scores when \<open>new_threshold\<close> is not negative.
\<close>

definition test ::
  "'s classifier \<Rightarrow> 'w library \<Rightarrow> 's \<Rightarrow> matrix \<Rightarrow> vec \<Rightarrow> real \<Rightarrow>
   error + ((real \<times> real \<times> real \<times> real \<times> real \<times> real) \<times> line list)" where
  "test dipnn lib s X_test Y_test new_threshold =
     (case predict dipnn s X_test of (Y_predicted_binary0, Y_predicted) \<Rightarrow>
        let Y_predicted_binary =
              (if new_threshold \<ge> 0 then threshold_scores new_threshold Y_predicted
               else Y_predicted_binary0)
        in test_metrics (roc_auc_score lib) Y_predicted_binary Y_predicted Y_test)"

text \<open>
  The number of positions, among those the loop visits, where a relation holds between
  the binary prediction and the label.
\<close>

definition count_positions :: "(real \<Rightarrow> real \<Rightarrow> bool) \<Rightarrow> vec \<Rightarrow> vec \<Rightarrow> nat" where
  "count_positions rel Yb Y =
     length (filter (\<lambda>i. rel (Yb ! i) (Y ! i)) [0..<min (length Yb) (length Y)])"

text \<open>
  The confusion counts in the specification's words: the positions where prediction and
  label differ, where the label is 1, where label and prediction are both 1, where the
  label is 0, and where label and prediction are both 0.
\<close>

definition mismatches :: "vec \<Rightarrow> vec \<Rightarrow> nat" where
  "mismatches Yb Y = count_positions (\<lambda>y_p y. y_p \<noteq> y) Yb Y"

definition positives :: "vec \<Rightarrow> vec \<Rightarrow> nat" where
  "positives Yb Y = count_positions (\<lambda>y_p y. y = 1) Yb Y"

definition true_positives :: "vec \<Rightarrow> vec \<Rightarrow> nat" where
  "true_positives Yb Y = count_positions (\<lambda>y_p y. y = 1 \<and> y_p = 1) Yb Y"

definition negatives :: "vec \<Rightarrow> vec \<Rightarrow> nat" where
  "negatives Yb Y = count_positions (\<lambda>y_p y. y = 0) Yb Y"

definition true_negatives :: "vec \<Rightarrow> vec \<Rightarrow> nat" where
  "true_negatives Yb Y = count_positions (\<lambda>y_p y. y = 0 \<and> y_p = 0) Yb Y"

text \<open>
  The binary prediction vector that \<open>test\<close> walks, given the pair that \<open>predict\<close>
  returned: lines 22 and 23.
\<close>

definition binary_predictions :: "real \<Rightarrow> vec \<times> vec \<Rightarrow> vec" where
  "binary_predictions new_threshold pr =
     (if new_threshold \<ge> 0 then threshold_scores new_threshold (snd pr) else fst pr)"

section \<open>One timed iteration\<close>

text \<open>What one iteration of a driver measures and prints.\<close>

record run =
  run_training_time :: real
  run_test_time :: real
  run_acc :: real
  run_TP_rate :: real
  run_TN_rate :: real
  run_precision :: real
  run_recall :: real
  run_roc_auc :: real
  run_printed :: "line list"

text \<open>
  Lines 86 to 93 of \<open>evaluate_multiple_times\<close>, which are lines 153 to 160 of
  \<open>evaluate_k_fold\<close>: the clock is read around \<open>train\<close> and around \<open>test\<close>.
\<close>

definition timed_train_test ::
  "'s classifier \<Rightarrow> 'w library \<Rightarrow> real \<Rightarrow> matrix \<times> matrix \<times> vec \<times> vec \<Rightarrow> 's \<Rightarrow> 'w \<Rightarrow>
   error + (run \<times> 's \<times> 'w)" where
  "timed_train_test dipnn lib new_threshold split s w =
     (let (X_train, X_test, Y_train, Y_test) = split;
          (start_training, w1) = time lib w;
          s1 = train dipnn X_train Y_train s;
          (end_training, w2) = time lib w1;
          (start_test, w3) = time lib w2
      in (case test dipnn lib s1 X_test Y_test new_threshold of
            Inl e \<Rightarrow> Inl e
          | Inr ((acc, TP_rate, TN_rate, precision, recall, roc_auc), out) \<Rightarrow>
              (let (end_test, w4) = time lib w3
               in Inr (\<lparr>run_training_time = end_training - start_training,
                        run_test_time = end_test - start_test,
                        run_acc = acc, run_TP_rate = TP_rate, run_TN_rate = TN_rate,
                        run_precision = precision, run_recall = recall,
                        run_roc_auc = roc_auc, run_printed = out\<rparr>, s1, w4))))"

text \<open>
  The locals a driver carries from one iteration to the next. \<open>precision\<close> and
  \<open>recall\<close> are bound once an iteration has run: \<open>None\<close> is the unbound local.
  \<open>roc_auc_list\<close> exists in \<open>evaluate_k_fold\<close> alone.
\<close>

record totals =
  sum_acc :: real
  sum_TP_rate :: real
  sum_TN_rate :: real
  sum_roc_auc :: real
  accuracy_list :: vec
  training_time :: vec
  test_time :: vec
  precision :: "real option"
  recall :: "real option"
  printed :: "line list"

record kfold_totals = totals +
  roc_auc_list :: vec

definition no_totals :: totals where
  "no_totals = \<lparr>sum_acc = 0, sum_TP_rate = 0, sum_TN_rate = 0, sum_roc_auc = 0,
                 accuracy_list = [], training_time = [], test_time = [],
                 precision = None, recall = None, printed = []\<rparr>"

definition no_kfold_totals :: kfold_totals where
  "no_kfold_totals = \<lparr>sum_acc = 0, sum_TP_rate = 0, sum_TN_rate = 0, sum_roc_auc = 0,
                       accuracy_list = [], training_time = [], test_time = [],
                       precision = None, recall = None, printed = [], roc_auc_list = []\<rparr>"

text \<open>The appends and running sums of lines 89 and 93 to 98.\<close>

definition accumulate :: "run \<Rightarrow> 'a totals_scheme \<Rightarrow> 'a totals_scheme" where
  "accumulate r st =
     st\<lparr>training_time := training_time st @ [run_training_time r],
        test_time := test_time st @ [run_test_time r],
        accuracy_list := accuracy_list st @ [run_acc r],
        sum_acc := sum_acc st + run_acc r,
        sum_TP_rate := sum_TP_rate st + run_TP_rate r,
        sum_TN_rate := sum_TN_rate st + run_TN_rate r,
        sum_roc_auc := sum_roc_auc st + run_roc_auc r,
        precision := Some (run_precision r),
        recall := Some (run_recall r),
        printed := printed st @ run_printed r\<rparr>"

text \<open>The same for lines 156 and 160 to 166, with the append of line 162.\<close>

definition accumulate_fold :: "run \<Rightarrow> kfold_totals \<Rightarrow> kfold_totals" where
  "accumulate_fold r st =
     (accumulate r st)\<lparr>roc_auc_list := roc_auc_list st @ [run_roc_auc r]\<rparr>"

text \<open>\<open>np.sum((np.array(xs) - avg)**2)\<close>, as lines 100 to 104 and 168 to 174 write it.\<close>

definition sum_sq_dev :: "vec \<Rightarrow> real \<Rightarrow> real" where
  "sum_sq_dev xs avg = sum_list (map (\<lambda>x. (x - avg)\<^sup>2) xs)"

section \<open>\<open>EvaluationTools.evaluate_multiple_times\<close>\<close>

text \<open>Lines 84 to 93: one iteration, on a fresh random split.\<close>

definition random_run ::
  "'s classifier \<Rightarrow> 'w library \<Rightarrow> matrix \<Rightarrow> vec \<Rightarrow> real \<Rightarrow> real \<Rightarrow> 's \<Rightarrow> 'w \<Rightarrow>
   error + (run \<times> 's \<times> 'w)" where
  "random_run dipnn lib X Y test_size new_threshold s w =
     (let s0 = set_to_default dipnn s
      in case train_test_split lib X Y test_size w of
           Inl e \<Rightarrow> Inl e
         | Inr (split, w') \<Rightarrow> timed_train_test dipnn lib new_threshold split s0 w')"

text \<open>The loop of line 82, \<open>k\<close> iterations to go.\<close>

fun multiple_loop ::
  "'s classifier \<Rightarrow> 'w library \<Rightarrow> matrix \<Rightarrow> vec \<Rightarrow> real \<Rightarrow> real \<Rightarrow> nat \<Rightarrow> totals \<Rightarrow> 's \<Rightarrow> 'w \<Rightarrow>
   error + (totals \<times> 's \<times> 'w)" where
  "multiple_loop dipnn lib X Y test_size new_threshold 0 st s w = Inr (st, s, w)"
| "multiple_loop dipnn lib X Y test_size new_threshold (Suc k) st s w =
     (case random_run dipnn lib X Y test_size new_threshold s w of
        Inl e \<Rightarrow> Inl e
      | Inr (r, s', w') \<Rightarrow>
          multiple_loop dipnn lib X Y test_size new_threshold k (accumulate r st) s' w')"

text \<open>
  Lines 99 to 120. Line 99 divides two Python floats and raises when \<open>no_runs\<close> is 0;
  every later divisor is the same number. Lines 113 and 114 read \<open>precision\<close> and
  \<open>recall\<close>, which are unbound when the loop has not run.
\<close>

definition report_multiple ::
  "'s classifier \<Rightarrow> 's \<Rightarrow> int \<Rightarrow> real \<Rightarrow> int \<Rightarrow> totals \<Rightarrow>
   error + ((real \<times> real \<times> real \<times> real \<times> real \<times> real \<times> real \<times> real) \<times> line list)" where
  "report_multiple dipnn s no_runs coefficients_threshold coeff_precision st =
     (if no_runs = 0 then Inl ZeroDivisionError
      else
        let avg_acc = sum_acc st / real_of_int no_runs;
            var_acc = sum_sq_dev (accuracy_list st) avg_acc / real_of_int no_runs;
            avg_training_time = sum_list (training_time st) / real_of_int no_runs;
            var_training_time =
              sum_sq_dev (training_time st) avg_training_time / real_of_int no_runs;
            avg_test_time = sum_list (test_time st) / real_of_int no_runs;
            var_test_time = sum_sq_dev (test_time st) avg_test_time / real_of_int no_runs;
            avg_tp_rate = sum_TP_rate st / real_of_int no_runs;
            avg_tn_rate = sum_TN_rate st / real_of_int no_runs
        in case precision st of
             None \<Rightarrow> Inl UnboundLocalError
           | Some precision_value \<Rightarrow>
               (case recall st of
                  None \<Rightarrow> Inl UnboundLocalError
                | Some recall_value \<Rightarrow>
                    Inr ((avg_acc, avg_training_time, var_training_time, avg_test_time,
                          var_test_time, avg_tp_rate, avg_tn_rate,
                          sum_roc_auc st / real_of_int no_runs),
                         printed st @
                         [Text ''The model in the last iteration'',
                          Text (get_the_model_representation dipnn s
                                  coefficients_threshold coeff_precision),
                          Metric ''Average accuracy: '' avg_acc,
                          Metric ''Variance of accuracy: '' var_acc,
                          Metric ''Average true positive rate: '' avg_tp_rate,
                          Metric ''Average true negative rate: '' avg_tn_rate,
                          Metric ''Precision: '' precision_value,
                          Metric ''Recall: '' recall_value,
                          Metric ''Area Under the Receiver Operating Characteristic Score: ''
                            (sum_roc_auc st / real_of_int no_runs),
                          Metric ''Average training time: '' avg_training_time,
                          Metric ''Variance of training time: '' var_training_time,
                          Metric ''Average test time: '' avg_test_time,
                          Metric ''Variance of test time: '' var_test_time])))"

text \<open>
  The whole driver: \<open>range(no_runs)\<close> has \<open>nat no_runs\<close> elements, none when
  \<open>no_runs\<close> is negative. The result carries the returned tuple, the console output,
  and the classifier and world as the call leaves them.
\<close>

definition evaluate_multiple_times ::
  "'s classifier \<Rightarrow> 'w library \<Rightarrow> matrix \<Rightarrow> vec \<Rightarrow> int \<Rightarrow> real \<Rightarrow> real \<Rightarrow> int \<Rightarrow> real \<Rightarrow> 's \<Rightarrow> 'w \<Rightarrow>
   error + ((real \<times> real \<times> real \<times> real \<times> real \<times> real \<times> real \<times> real) \<times> line list \<times> 's \<times> 'w)" where
  "evaluate_multiple_times dipnn lib X Y no_runs test_size coefficients_threshold
       coeff_precision new_threshold s w =
     (case multiple_loop dipnn lib X Y test_size new_threshold (nat no_runs) no_totals s w of
        Inl e \<Rightarrow> Inl e
      | Inr (st, s', w') \<Rightarrow>
          (case report_multiple dipnn s' no_runs coefficients_threshold coeff_precision st of
             Inl e \<Rightarrow> Inl e
           | Inr (ret, out) \<Rightarrow> Inr (ret, out, s', w')))"

section \<open>\<open>EvaluationTools.evaluate_k_fold\<close>\<close>

text \<open>
  \<open>X[index]\<close> and \<open>Y[index]\<close> with an index array: the selected entries in the
  order of the indices, or IndexError when one of them is out of bounds.
\<close>

definition take_rows :: "'a list \<Rightarrow> nat list \<Rightarrow> error + 'a list" where
  "take_rows xs index =
     (if list_all (\<lambda>i. i < length xs) index then Inr (map (\<lambda>i. xs ! i) index)
      else Inl IndexError)"

text \<open>Lines 150 to 160: one iteration, on one fold.\<close>

definition fold_run ::
  "'s classifier \<Rightarrow> 'w library \<Rightarrow> matrix \<Rightarrow> vec \<Rightarrow> real \<Rightarrow> nat list \<times> nat list \<Rightarrow> 's \<Rightarrow> 'w \<Rightarrow>
   error + (run \<times> 's \<times> 'w)" where
  "fold_run dipnn lib X Y new_threshold fld s w =
     (let (train_index, test_index) = fld;
          s0 = set_to_default dipnn s
      in (case take_rows X train_index of
            Inl e \<Rightarrow> Inl e
          | Inr X_train \<Rightarrow>
              (case take_rows X test_index of
                 Inl e \<Rightarrow> Inl e
               | Inr X_test \<Rightarrow>
                   (case take_rows Y train_index of
                      Inl e \<Rightarrow> Inl e
                    | Inr Y_train \<Rightarrow>
                        (case take_rows Y test_index of
                           Inl e \<Rightarrow> Inl e
                         | Inr Y_test \<Rightarrow>
                             timed_train_test dipnn lib new_threshold
                               (X_train, X_test, Y_train, Y_test) s0 w)))))"

text \<open>The loop of line 148, over the folds still to come.\<close>

fun fold_loop ::
  "'s classifier \<Rightarrow> 'w library \<Rightarrow> matrix \<Rightarrow> vec \<Rightarrow> real \<Rightarrow> (nat list \<times> nat list) list \<Rightarrow>
   kfold_totals \<Rightarrow> 's \<Rightarrow> 'w \<Rightarrow> error + (kfold_totals \<times> 's \<times> 'w)" where
  "fold_loop dipnn lib X Y new_threshold [] st s w = Inr (st, s, w)"
| "fold_loop dipnn lib X Y new_threshold (fld # folds) st s w =
     (case fold_run dipnn lib X Y new_threshold fld s w of
        Inl e \<Rightarrow> Inl e
      | Inr (r, s', w') \<Rightarrow>
          fold_loop dipnn lib X Y new_threshold folds (accumulate_fold r st) s' w')"

text \<open>Lines 167 to 191, with the two lines on the AUC that the other driver lacks.\<close>

definition report_k_fold ::
  "'s classifier \<Rightarrow> 's \<Rightarrow> int \<Rightarrow> real \<Rightarrow> int \<Rightarrow> kfold_totals \<Rightarrow>
   error + ((real \<times> real \<times> real \<times> real \<times> real \<times> real \<times> real \<times> real) \<times> line list)" where
  "report_k_fold dipnn s n_folds coefficients_threshold coeff_precision st =
     (if n_folds = 0 then Inl ZeroDivisionError
      else
        let avg_acc = sum_acc st / real_of_int n_folds;
            var_acc = sum_sq_dev (accuracy_list st) avg_acc / real_of_int n_folds;
            avg_roc = sum_roc_auc st / real_of_int n_folds;
            var_roc = sum_sq_dev (roc_auc_list st) avg_roc / real_of_int n_folds;
            avg_training_time = sum_list (training_time st) / real_of_int n_folds;
            var_training_time =
              sum_sq_dev (training_time st) avg_training_time / real_of_int n_folds;
            avg_test_time = sum_list (test_time st) / real_of_int n_folds;
            var_test_time = sum_sq_dev (test_time st) avg_test_time / real_of_int n_folds;
            avg_tp_rate = sum_TP_rate st / real_of_int n_folds;
            avg_tn_rate = sum_TN_rate st / real_of_int n_folds
        in case precision st of
             None \<Rightarrow> Inl UnboundLocalError
           | Some precision_value \<Rightarrow>
               (case recall st of
                  None \<Rightarrow> Inl UnboundLocalError
                | Some recall_value \<Rightarrow>
                    Inr ((avg_acc, avg_training_time, var_training_time, avg_test_time,
                          var_test_time, avg_tp_rate, avg_tn_rate, avg_roc),
                         printed st @
                         [Text ''The model in the last iteration'',
                          Text (get_the_model_representation dipnn s
                                  coefficients_threshold coeff_precision),
                          Metric ''Average accuracy: '' avg_acc,
                          Metric ''Variance of accuracy: '' var_acc,
                          Metric ''Average true positive rate: '' avg_tp_rate,
                          Metric ''Average true negative rate: '' avg_tn_rate,
                          Metric ''Precision: '' precision_value,
                          Metric ''Recall: '' recall_value,
                          Metric ''Average Area Under the Receiver Operating Characteristic Score: ''
                            avg_roc,
                          Metric ''Variance of Area Under the Receiver Operating Characteristic Score: ''
                            var_roc,
                          Metric ''Average training time: '' avg_training_time,
                          Metric ''Variance of training time: '' var_training_time,
                          Metric ''Average test time: '' avg_test_time,
                          Metric ''Variance of test time: '' var_test_time])))"

definition evaluate_k_fold ::
  "'s classifier \<Rightarrow> 'w library \<Rightarrow> matrix \<Rightarrow> vec \<Rightarrow> int \<Rightarrow> real \<Rightarrow> int \<Rightarrow> real \<Rightarrow> int \<Rightarrow> 's \<Rightarrow> 'w \<Rightarrow>
   error + ((real \<times> real \<times> real \<times> real \<times> real \<times> real \<times> real \<times> real) \<times> line list \<times> 's \<times> 'w)" where
  "evaluate_k_fold dipnn lib X Y n_folds coefficients_threshold coeff_precision
       new_threshold seed s w =
     (case kfold_split lib n_folds seed X of
        Inl e \<Rightarrow> Inl e
      | Inr folds \<Rightarrow>
          (case fold_loop dipnn lib X Y new_threshold folds no_kfold_totals s w of
             Inl e \<Rightarrow> Inl e
           | Inr (st, s', w') \<Rightarrow>
               (case report_k_fold dipnn s' n_folds coefficients_threshold coeff_precision st of
                  Inl e \<Rightarrow> Inl e
                | Inr (ret, out) \<Rightarrow> Inr (ret, out, s', w'))))"

section \<open>The runs of a driver, and the statistics the specification names\<close>

text \<open>
  The measurements of the successive iterations, collected in a list: what the
  specification calls the per-run values. The drivers keep sums and some lists; these
  functions keep every iteration's whole record, and stop at the first exception as the
  drivers do.
\<close>

fun random_runs ::
  "'s classifier \<Rightarrow> 'w library \<Rightarrow> matrix \<Rightarrow> vec \<Rightarrow> real \<Rightarrow> real \<Rightarrow> nat \<Rightarrow> 's \<Rightarrow> 'w \<Rightarrow>
   error + (run list \<times> 's \<times> 'w)" where
  "random_runs dipnn lib X Y test_size new_threshold 0 s w = Inr ([], s, w)"
| "random_runs dipnn lib X Y test_size new_threshold (Suc k) s w =
     (case random_run dipnn lib X Y test_size new_threshold s w of
        Inl e \<Rightarrow> Inl e
      | Inr (r, s', w') \<Rightarrow>
          (case random_runs dipnn lib X Y test_size new_threshold k s' w' of
             Inl e \<Rightarrow> Inl e
           | Inr (rs, s'', w'') \<Rightarrow> Inr (r # rs, s'', w'')))"

fun fold_runs ::
  "'s classifier \<Rightarrow> 'w library \<Rightarrow> matrix \<Rightarrow> vec \<Rightarrow> real \<Rightarrow> (nat list \<times> nat list) list \<Rightarrow> 's \<Rightarrow> 'w \<Rightarrow>
   error + (run list \<times> 's \<times> 'w)" where
  "fold_runs dipnn lib X Y new_threshold [] s w = Inr ([], s, w)"
| "fold_runs dipnn lib X Y new_threshold (fld # folds) s w =
     (case fold_run dipnn lib X Y new_threshold fld s w of
        Inl e \<Rightarrow> Inl e
      | Inr (r, s', w') \<Rightarrow>
          (case fold_runs dipnn lib X Y new_threshold folds s' w' of
             Inl e \<Rightarrow> Inl e
           | Inr (rs, s'', w'') \<Rightarrow> Inr (r # rs, s'', w'')))"

text \<open>
  Mean and population variance in the specification's words: the sum divided by the
  count, and the sum of the squared deviations from the mean divided by the count.
\<close>

definition mean :: "vec \<Rightarrow> real" where
  "mean xs = sum_list xs / real (length xs)"

definition population_variance :: "vec \<Rightarrow> real" where
  "population_variance xs = sum_list (map (\<lambda>x. (x - mean xs)\<^sup>2) xs) / real (length xs)"

text \<open>
  Reading the console output: the numbers printed under a given prefix, and whether an
  output holds fixed strings only.
\<close>

definition metric_values :: "string \<Rightarrow> line list \<Rightarrow> real list" where
  "metric_values label out =
     concat (map (\<lambda>ln. case ln of Text t \<Rightarrow> [] | Metric l v \<Rightarrow> if l = label then [v] else []) out)"

definition only_text :: "line list \<Rightarrow> bool" where
  "only_text out = list_all (\<lambda>ln. case ln of Text t \<Rightarrow> True | Metric l v \<Rightarrow> False) out"

section \<open>The means and variances in float64 arithmetic\<close>

text \<open>
  The definitions above read every float as an exact real. That leaves the structure of
  the results as it is, but not the values of the means and variances, which depend on
  the rounding of each operation. The lines that compute them are therefore modelled
  once more, as functions of the lists of per-run values, with every operation rounded
  to float64: round to nearest, ties to even, 53 significant bits, gradual underflow
  below 2 to the -1022. Infinities and NaN are not modelled: the lists are taken to
  hold finite float64 numbers, and results of magnitude 2 to the 1024 or more are
  outside the model.
\<close>















section \<open>A concrete classifier, library and data\<close>

text \<open>
  A classifier that scores a row by its first feature and decides by a cutoff, the AUC
  as the share of (positive, negative) pairs ranked in the right order, a split that
  rotates the data by the random state and takes the first two rows as the test set, a
  clock that reads the square of the number of earlier calls, and a two-fold split of
  four rows. They instantiate the theorems below at concrete inputs.
\<close>

definition first_feature :: "real list \<Rightarrow> real" where
  "first_feature row = (case row of [] \<Rightarrow> 0 | x # _ \<Rightarrow> x)"

definition example_classifier :: "real classifier" where
  "example_classifier =
     \<lparr>set_to_default = (\<lambda>s. 1/2),
      train = (\<lambda>X Y s. s),
      predict = (\<lambda>s X. (map (\<lambda>row. if first_feature row \<ge> s then 1 else 0) X,
                          map first_feature X)),
      get_the_model_representation = (\<lambda>s t p. ''first feature'')\<rparr>"

definition pairwise_auc :: "vec \<Rightarrow> vec \<Rightarrow> error + real" where
  "pairwise_auc labels scores =
     (let pos = map snd (filter (\<lambda>(l, s). l = 1) (zip labels scores));
          neg = map snd (filter (\<lambda>(l, s). l \<noteq> 1) (zip labels scores));
          wins = concat (map (\<lambda>a. map (\<lambda>b. if a > b then 1 else if a = b then 1/2 else 0) neg) pos)
      in if pos = [] \<or> neg = [] then Inl ValueError
         else Inr (sum_list wins / real (length wins)))"

definition example_library :: "nat library" where
  "example_library =
     \<lparr>roc_auc_score = pairwise_auc,
      train_test_split = (\<lambda>X Y test_size w.
         if X = [] then Inl ValueError
         else Inr ((drop 2 (rotate w X), take 2 (rotate w X),
                    drop 2 (rotate w Y), take 2 (rotate w Y)), Suc w)),
      time = (\<lambda>w. (real (w * w), Suc w)),
      kfold_split = (\<lambda>n_splits seed X.
         if n_splits = 2 \<and> length X = 4 then Inr [([2, 3], [0, 1]), ([0, 1], [3, 2])]
         else Inl ValueError)\<rparr>"

definition example_X :: matrix where
  "example_X = [[0.9], [0.2], [0.4], [0.3]]"

definition example_Y :: vec where
  "example_Y = [1, 0, 1, 0]"

definition scenario_X :: matrix where
  "scenario_X = [[0.9], [0.4], [0.3], [0.2]]"

definition scenario_Y :: vec where
  "scenario_Y = [1, 1, 0, 0]"

text \<open>
  Two rows that the classifier both rejects, and three rows whose scores straddle the
  threshold 0.7.
\<close>

definition silent_X :: matrix where
  "silent_X = [[0.4], [0.2]]"

definition silent_Y :: vec where
  "silent_Y = [1, 0]"

definition override_X :: matrix where
  "override_X = [[0.9], [0.6], [0.3]]"

text \<open>
  What the three random runs and the two folds measure on the example data.
\<close>

definition example_runs :: "run list" where
  "example_runs =
     [\<lparr>run_training_time = 3, run_test_time = 7, run_acc = 1,
          run_TP_rate = 1, run_TN_rate = 1, run_precision = 1,
          run_recall = 1, run_roc_auc = 1, run_printed = []\<rparr>,
      \<lparr>run_training_time = 13, run_test_time = 17, run_acc = 1/2,
          run_TP_rate = 0, run_TN_rate = 1, run_precision = 0,
          run_recall = 0, run_roc_auc = 1,
          run_printed = [Text ''No true positive examples were found!'']\<rparr>,
      \<lparr>run_training_time = 23, run_test_time = 27, run_acc = 1/2,
          run_TP_rate = 0, run_TN_rate = 1, run_precision = 0,
          run_recall = 0, run_roc_auc = 1,
          run_printed = [Text ''No true positive examples were found!'']\<rparr>]"

definition example_fold_runs :: "run list" where
  "example_fold_runs =
     [\<lparr>run_training_time = 1, run_test_time = 5, run_acc = 1,
          run_TP_rate = 1, run_TN_rate = 1, run_precision = 1,
          run_recall = 1, run_roc_auc = 1, run_printed = []\<rparr>,
      \<lparr>run_training_time = 9, run_test_time = 13, run_acc = 1/2,
          run_TP_rate = 0, run_TN_rate = 1, run_precision = 0,
          run_recall = 0, run_roc_auc = 1,
          run_printed = [Text ''No true positive examples were found!'']\<rparr>]"


section \<open>The confusion counts of \<open>test\<close>\<close>

lemma tally_fields:
  "n_errors (tally c (y_p, y)) = n_errors c + (if y_p \<noteq> y then 1 else 0)"
  "P (tally c (y_p, y)) = P c + (if y = 1 then 1 else 0)"
  "TP (tally c (y_p, y)) = TP c + (if y = 1 \<and> y_p = 1 then 1 else 0)"
  "N (tally c (y_p, y)) = N c + (if y = 0 then 1 else 0)"
  "TN (tally c (y_p, y)) = TN c + (if y = 0 \<and> y_p = 0 then 1 else 0)"
  by (simp_all add: tally_def Let_def)

lemma foldl_tally:
  "n_errors (foldl tally c ps) = n_errors c + real (length (filter (\<lambda>(y_p, y). y_p \<noteq> y) ps))"
  "P (foldl tally c ps) = P c + real (length (filter (\<lambda>(y_p, y). y = 1) ps))"
  "TP (foldl tally c ps) = TP c + real (length (filter (\<lambda>(y_p, y). y = 1 \<and> y_p = 1) ps))"
  "N (foldl tally c ps) = N c + real (length (filter (\<lambda>(y_p, y). y = 0) ps))"
  "TN (foldl tally c ps) = TN c + real (length (filter (\<lambda>(y_p, y). y = 0 \<and> y_p = 0) ps))"
  by (induction ps arbitrary: c; simp add: tally_fields split: prod.splits)+

lemma zip_as_map:
  "zip xs ys = map (\<lambda>i. (xs ! i, ys ! i)) [0..<min (length xs) (length ys)]"
  by (rule nth_equalityI) simp_all

lemma filter_zip_count:
  "length (filter (\<lambda>(a, b). rel a b) (zip xs ys)) = count_positions rel xs ys"
  unfolding count_positions_def
  by (subst zip_as_map) (simp add: filter_map comp_def)

lemma counts_of_zip:
  "n_errors (foldl tally no_counts (zip Yb Y)) = real (mismatches Yb Y)"
  "P (foldl tally no_counts (zip Yb Y)) = real (positives Yb Y)"
  "TP (foldl tally no_counts (zip Yb Y)) = real (true_positives Yb Y)"
  "N (foldl tally no_counts (zip Yb Y)) = real (negatives Yb Y)"
  "TN (foldl tally no_counts (zip Yb Y)) = real (true_negatives Yb Y)"
  by (simp_all add: foldl_tally no_counts_def filter_zip_count mismatches_def positives_def
        true_positives_def negatives_def true_negatives_def)

lemma count_positions_le:
  "count_positions rel Yb Y \<le> min (length Yb) (length Y)"
  unfolding count_positions_def
  by (rule order_trans[OF length_filter_le]) simp

lemma length_filter_mono:
  "(\<And>x. p x \<Longrightarrow> q x) \<Longrightarrow> length (filter p xs) \<le> length (filter q xs)"
  by (induction xs) auto

lemma count_positions_mono:
  "(\<And>a b. rel a b \<Longrightarrow> rel' a b) \<Longrightarrow> count_positions rel Yb Y \<le> count_positions rel' Yb Y"
  unfolding count_positions_def by (rule length_filter_mono) simp


lemma true_negatives_le: "true_negatives Yb Y \<le> negatives Yb Y"
  unfolding true_negatives_def negatives_def by (rule count_positions_mono) simp

lemma mismatches_le: "mismatches Yb Y \<le> length Yb"
  unfolding mismatches_def using count_positions_le[of _ Yb Y] by (simp add: order_trans)


text \<open>What \<open>test\<close> returns, with the accumulators read as the counts.\<close>

lemma test_metrics_result:
  "test_metrics roc Yb Ys Y =
     (case roc (binarize_labels Y) Ys of
        Inl e \<Rightarrow> Inl e
      | Inr auc \<Rightarrow>
          if Yb = [] then Inl ZeroDivisionError
          else Inr ((1 - real (mismatches Yb Y) / real (length Yb),
                     (if positives Yb Y = 0 then 1
                      else real (true_positives Yb Y) / real (positives Yb Y)),
                     (if negatives Yb Y = 0 then 1
                      else real (true_negatives Yb Y) / real (negatives Yb Y)),
                     (if real (true_positives Yb Y) + real (negatives Yb Y)
                           - real (true_negatives Yb Y) \<noteq> 0
                      then real (true_positives Yb Y) /
                           (real (true_positives Yb Y) + real (negatives Yb Y)
                              - real (true_negatives Yb Y))
                      else 0),
                     (if positives Yb Y = 0 then 1
                      else real (true_positives Yb Y) / real (positives Yb Y)),
                     auc),
                    (if positives Yb Y = 0 then [Text ''No positive examples were found!''] else []) @
                    (if negatives Yb Y = 0 then [Text ''No negative examples were found!''] else []) @
                    (if real (true_positives Yb Y) + real (negatives Yb Y)
                           - real (true_negatives Yb Y) \<noteq> 0 then []
                     else [Text ''No true positive examples were found!''])))"
  unfolding test_metrics_def Let_def counts_of_zip
  by (simp split: sum.splits)

lemma test_as_metrics:
  "test dipnn lib s X_test Y_test new_threshold =
     test_metrics (roc_auc_score lib) (binary_predictions new_threshold (predict dipnn s X_test))
       (snd (predict dipnn s X_test)) Y_test"
  by (simp add: test_def binary_predictions_def Let_def split: prod.splits)


section \<open>Properties of \<open>test\<close>\<close>

text \<open>
  C1. For prediction and label vectors of equal length, the accuracy that \<open>test\<close>
  returns is 1 minus the number of index positions where the binary prediction differs
  from the label, divided by the length; it lies between 0 and 1. The binary prediction
  is the vector the counts are taken from: the model's own, or the thresholded scores
  when \<open>new_threshold\<close> is not negative.
\<close>

theorem test_accuracy:
  assumes "Yb = binary_predictions new_threshold (predict dipnn s X_test)"
    and "length Yb = length Y_test"
    and "test dipnn lib s X_test Y_test new_threshold =
           Inr ((acc, TP_rate, TN_rate, prec, rec, auc), out)"
  shows "acc = 1 - real (length (filter (\<lambda>i. Yb ! i \<noteq> Y_test ! i) [0..<length Yb]))
                    / real (length Yb)
         \<and> 0 \<le> acc \<and> acc \<le> 1"
proof -
  have ne: "Yb \<noteq> []" and acc: "acc = 1 - real (mismatches Yb Y_test) / real (length Yb)"
    using assms(3) unfolding test_as_metrics assms(1)[symmetric] test_metrics_result
    by (auto split: sum.splits if_splits)
  have m: "mismatches Yb Y_test = length (filter (\<lambda>i. Yb ! i \<noteq> Y_test ! i) [0..<length Yb])"
    using assms(2) by (simp add: mismatches_def count_positions_def)
  have "real (mismatches Yb Y_test) / real (length Yb) \<le> 1"
    using mismatches_le[of Yb Y_test] ne by simp
  moreover have "0 \<le> real (mismatches Yb Y_test) / real (length Yb)" by simp
  ultimately show ?thesis using acc m by simp
qed

lemma scenario_test:
  "test example_classifier example_library (1/2) scenario_X scenario_Y (-1)
     = Inr ((3/4, 1/2, 1, 1, 1/2, 1), [])"
  by (simp add: test_def example_classifier_def example_library_def scenario_X_def
        scenario_Y_def first_feature_def test_metrics_def pairwise_auc_def tally_def
        no_counts_def binarize_labels_def Let_def)

theorem test_accuracy_witness:
  "test example_classifier example_library (1/2) scenario_X scenario_Y (-1)
     = Inr ((3/4, 1/2, 1, 1, 1/2, 1), [])
   \<and> length [1, 0, 0, 0 :: real] = length scenario_Y
   \<and> (3/4 :: real) = 1 - real (length (filter (\<lambda>i. [1, 0, 0, 0 :: real] ! i \<noteq> scenario_Y ! i)
                                    [0..<length [1, 0, 0, 0 :: real]])) / real (length [1, 0, 0, 0 :: real])
   \<and> (0::real) \<le> 3/4 \<and> (3/4 :: real) \<le> 1"
proof -
  have b: "[1, 0, 0, 0] = binary_predictions (-1) (predict example_classifier (1/2) scenario_X)"
    by (simp add: binary_predictions_def example_classifier_def scenario_X_def first_feature_def)
  have l: "length [1, 0, 0, 0 :: real] = length scenario_Y"
    by (simp add: scenario_Y_def)
  show ?thesis
    using test_accuracy [OF b l scenario_test] scenario_test l by blast
qed

lemma test_returns:
  "(\<exists>r. test dipnn lib s X_test Y_test new_threshold = Inr r) \<longleftrightarrow>
     binary_predictions new_threshold (predict dipnn s X_test) \<noteq> []
     \<and> (\<exists>a. roc_auc_score lib (binarize_labels Y_test) (snd (predict dipnn s X_test)) = Inr a)"
  unfolding test_as_metrics test_metrics_result
  by (auto split: sum.splits)


lemma scenario_binary:
  "[1, 0, 0, 0] = binary_predictions (-1) (predict example_classifier (1/2) scenario_X)"
  by (simp add: binary_predictions_def example_classifier_def scenario_X_def first_feature_def)

lemma scenario_counts:
  "positives [1, 0, 0, 0] scenario_Y = 2"
  "true_positives [1, 0, 0, 0] scenario_Y = 1"
  "negatives [1, 0, 0, 0] scenario_Y = 2"
  "true_negatives [1, 0, 0, 0] scenario_Y = 2"
  "mismatches [1, 0, 0, 0] scenario_Y = 1"
  by (simp_all add: positives_def true_positives_def negatives_def true_negatives_def
        mismatches_def count_positions_def scenario_Y_def upt_rec)


text \<open>
  C3. The returned precision is TP / (TP + (N - TN)) when that denominator is not zero
  and 0 when it is zero; TN never exceeds N, and the denominator is zero only when TP
  is zero, in which case the advisory line is printed.
\<close>

theorem test_precision:
  assumes "Yb = binary_predictions new_threshold (predict dipnn s X_test)"
    and "test dipnn lib s X_test Y_test new_threshold =
           Inr ((acc, TP_rate, TN_rate, prec, rec, auc), out)"
  shows "prec = (if real (true_positives Yb Y_test)
                     + (real (negatives Yb Y_test) - real (true_negatives Yb Y_test)) \<noteq> 0
                 then real (true_positives Yb Y_test)
                      / (real (true_positives Yb Y_test)
                         + (real (negatives Yb Y_test) - real (true_negatives Yb Y_test)))
                 else 0)
       \<and> true_negatives Yb Y_test \<le> negatives Yb Y_test
       \<and> (real (true_positives Yb Y_test)
            + (real (negatives Yb Y_test) - real (true_negatives Yb Y_test)) = 0
          \<longrightarrow> true_positives Yb Y_test = 0
              \<and> Text ''No true positive examples were found!'' \<in> set out)"
proof -
  have p: "prec = (if real (true_positives Yb Y_test)
                     + real (negatives Yb Y_test) - real (true_negatives Yb Y_test) \<noteq> 0
                 then real (true_positives Yb Y_test)
                      / (real (true_positives Yb Y_test)
                         + real (negatives Yb Y_test) - real (true_negatives Yb Y_test))
                 else 0)"
    and o: "real (true_positives Yb Y_test)
                     + real (negatives Yb Y_test) - real (true_negatives Yb Y_test) = 0
            \<Longrightarrow> Text ''No true positive examples were found!'' \<in> set out"
    using assms(2) unfolding test_as_metrics assms(1)[symmetric] test_metrics_result
    by (auto split: sum.splits if_splits)
  have le: "true_negatives Yb Y_test \<le> negatives Yb Y_test" by (rule true_negatives_le)
  have z: "true_positives Yb Y_test = 0"
    if "real (true_positives Yb Y_test)
            + (real (negatives Yb Y_test) - real (true_negatives Yb Y_test)) = 0"
    using that le by linarith
  have e: "real (true_positives Yb Y_test)
                     + real (negatives Yb Y_test) - real (true_negatives Yb Y_test)
         = real (true_positives Yb Y_test)
            + (real (negatives Yb Y_test) - real (true_negatives Yb Y_test))" by simp
  show ?thesis using p o le z unfolding e by simp
qed

lemma silent_test:
  "test example_classifier example_library (1/2) silent_X silent_Y (-1)
     = Inr ((1/2, 0, 1, 0, 0, 1), [Text ''No true positive examples were found!''])"
  by (simp add: test_def example_classifier_def example_library_def silent_X_def
        silent_Y_def first_feature_def test_metrics_def pairwise_auc_def tally_def
        no_counts_def binarize_labels_def Let_def)

lemma silent_binary:
  "[0, 0] = binary_predictions (-1) (predict example_classifier (1/2) silent_X)"
  by (simp add: binary_predictions_def example_classifier_def silent_X_def first_feature_def)

lemma silent_counts:
  "true_positives [0, 0] silent_Y = 0"
  "negatives [0, 0] silent_Y = 1"
  "true_negatives [0, 0] silent_Y = 1"
  by (simp_all add: true_positives_def negatives_def true_negatives_def
        count_positions_def silent_Y_def upt_rec)

theorem test_precision_witness:
  "test example_classifier example_library (1/2) silent_X silent_Y (-1)
     = Inr ((1/2, 0, 1, 0, 0, 1), [Text ''No true positive examples were found!''])
   \<and> real (true_positives [0, 0] silent_Y)
        + (real (negatives [0, 0] silent_Y) - real (true_negatives [0, 0] silent_Y)) = 0
   \<and> true_positives [0, 0] silent_Y = 0
   \<and> Text ''No true positive examples were found!''
        \<in> set [Text ''No true positive examples were found!'']
   \<and> test example_classifier example_library (1/2) scenario_X scenario_Y (-1)
     = Inr ((3/4, 1/2, 1, 1, 1/2, 1), [])
   \<and> real (true_positives [1, 0, 0, 0] scenario_Y)
        + (real (negatives [1, 0, 0, 0] scenario_Y)
           - real (true_negatives [1, 0, 0, 0] scenario_Y)) = 1
   \<and> (1::real) = real (true_positives [1, 0, 0, 0] scenario_Y)
        / (real (true_positives [1, 0, 0, 0] scenario_Y)
           + (real (negatives [1, 0, 0, 0] scenario_Y)
              - real (true_negatives [1, 0, 0, 0] scenario_Y)))"
  using test_precision [OF silent_binary silent_test]
    test_precision [OF scenario_binary scenario_test]
    silent_test scenario_test
  by (simp add: silent_counts scenario_counts)

text \<open>
  C4. When \<open>new_threshold\<close> is not negative, \<open>test\<close> computes everything from
  the binary vector whose entry is 1 where the score reaches the threshold and 0
  elsewhere, whatever the model's own binary output was; with threshold 0.7 and scores
  0.9, 0.6, 0.3 that vector is 1, 0, 0. When \<open>new_threshold\<close> is negative the model's
  own binary output is used.
\<close>

theorem test_threshold_override:
  assumes "predict dipnn s X_test = (Yb0, Ys)"
  shows "(new_threshold \<ge> 0 \<longrightarrow>
            test dipnn lib s X_test Y_test new_threshold
              = test_metrics (roc_auc_score lib)
                  (map (\<lambda>score. if score \<ge> new_threshold then 1 else 0) Ys) Ys Y_test)
       \<and> (new_threshold < 0 \<longrightarrow>
            test dipnn lib s X_test Y_test new_threshold
              = test_metrics (roc_auc_score lib) Yb0 Ys Y_test)
       \<and> (Ys = [0.9, 0.6, 0.3] \<longrightarrow>
            test dipnn lib s X_test Y_test 0.7
              = test_metrics (roc_auc_score lib) [1, 0, 0] [0.9, 0.6, 0.3] Y_test)"
  using assms by (simp add: test_def threshold_scores_def)

theorem test_threshold_override_witness:
  "predict example_classifier (1/2) override_X = ([1, 1, 0], [0.9, 0.6, 0.3])
   \<and> (0.7::real) \<ge> 0
   \<and> test example_classifier example_library (1/2) override_X [1, 0, 0] 0.7
       = test_metrics pairwise_auc [1, 0, 0] [0.9, 0.6, 0.3] [1, 0, 0]
   \<and> (-1::real) < 0
   \<and> test example_classifier example_library (1/2) override_X [1, 0, 0] (-1)
       = test_metrics pairwise_auc [1, 1, 0] [0.9, 0.6, 0.3] [1, 0, 0]
   \<and> test_metrics pairwise_auc [1, 0, 0] [0.9, 0.6, 0.3] [1, 0, 0]
       = Inr ((1, 1, 1, 1, 1, 1), [])
   \<and> test_metrics pairwise_auc [1, 1, 0] [0.9, 0.6, 0.3] [1, 0, 0]
       = Inr ((2/3, 1, 1/2, 1/2, 1, 1), [])"
proof -
  have p: "predict example_classifier (1/2) override_X = ([1, 1, 0], [0.9, 0.6, 0.3])"
    by (simp add: example_classifier_def override_X_def first_feature_def)
  have r: "roc_auc_score example_library = pairwise_auc"
    by (simp add: example_library_def)
  have m1: "test_metrics pairwise_auc [1, 0, 0] [0.9, 0.6, 0.3] [1, 0, 0]
       = Inr ((1, 1, 1, 1, 1, 1), [])"
    by (simp add: test_metrics_def pairwise_auc_def tally_def no_counts_def
          binarize_labels_def Let_def)
  have m2: "test_metrics pairwise_auc [1, 1, 0] [0.9, 0.6, 0.3] [1, 0, 0]
       = Inr ((2/3, 1, 1/2, 1/2, 1, 1), [])"
    by (simp add: test_metrics_def pairwise_auc_def tally_def no_counts_def
          binarize_labels_def Let_def)
  show ?thesis
    using test_threshold_override [OF p, of "0.7" example_library "[1, 0, 0]"]
      test_threshold_override [OF p, of "-1" example_library "[1, 0, 0]"] p m1 m2
    by (simp add: r)
qed

text \<open>
  C5. Whatever \<open>test\<close> returns, its recall component is its TP-rate component.
\<close>

theorem test_recall_is_TP_rate:
  "test dipnn lib s X_test Y_test new_threshold =
           Inr ((acc, TP_rate, TN_rate, prec, rec, auc), out) \<Longrightarrow> rec = TP_rate"
  unfolding test_as_metrics test_metrics_result
  by (auto split: sum.splits if_splits)

theorem test_recall_is_TP_rate_witness:
  "test example_classifier example_library (1/2) scenario_X scenario_Y (-1)
     = Inr ((3/4, 1/2, 1, 1, 1/2, 1), []) \<and> (1/2 :: real) = 1/2"
  using test_recall_is_TP_rate [OF scenario_test] scenario_test by simp

lemma binarize_labels_id:
  "set Y \<subseteq> {0, 1} \<Longrightarrow> binarize_labels Y = Y"
  unfolding binarize_labels_def by (induction Y) auto

text \<open>
  C8. The AUC that \<open>test\<close> returns is what the AUC routine gives on the labels
  binarized as 1 above 0.5 and 0 otherwise, and on the raw scores. On labels that are
  all 0 or 1 the binarization changes nothing, so the routine sees the labels as they
  are.
\<close>

theorem test_auc_labels:
  assumes "predict dipnn s X_test = (Yb0, Ys)"
    and "test dipnn lib s X_test Y_test new_threshold =
           Inr ((acc, TP_rate, TN_rate, prec, rec, auc), out)"
  shows "roc_auc_score lib (map (\<lambda>y. if y > 0.5 then 1 else 0) Y_test) Ys = Inr auc
       \<and> (set Y_test \<subseteq> {0, 1} \<longrightarrow>
            map (\<lambda>y. if y > 0.5 then 1 else 0) Y_test = Y_test
          \<and> roc_auc_score lib Y_test Ys = Inr auc)"
proof -
  have a: "roc_auc_score lib (binarize_labels Y_test) Ys = Inr auc"
    using assms(2) unfolding test_as_metrics test_metrics_result assms(1)
    by (auto split: sum.splits if_splits)
  have "binarize_labels Y_test = Y_test" if "set Y_test \<subseteq> {0, 1}"
    using that by (rule binarize_labels_id)
  then show ?thesis using a by (auto simp: binarize_labels_def)
qed

theorem test_auc_labels_witness:
  "predict example_classifier (1/2) scenario_X = ([1, 0, 0, 0], [0.9, 0.4, 0.3, 0.2])
   \<and> test example_classifier example_library (1/2) scenario_X scenario_Y (-1)
       = Inr ((3/4, 1/2, 1, 1, 1/2, 1), [])
   \<and> set scenario_Y \<subseteq> {0, 1}
   \<and> map (\<lambda>y. if y > 0.5 then 1 else 0) scenario_Y = scenario_Y
   \<and> roc_auc_score example_library scenario_Y [0.9, 0.4, 0.3, 0.2] = Inr 1"
proof -
  have p: "predict example_classifier (1/2) scenario_X = ([1, 0, 0, 0], [0.9, 0.4, 0.3, 0.2])"
    by (simp add: example_classifier_def scenario_X_def first_feature_def)
  have y: "set scenario_Y \<subseteq> {0, 1}"
    by (simp add: scenario_Y_def)
  show ?thesis
    using test_auc_labels [OF p scenario_test] p y scenario_test by blast
qed

text \<open>
  C9. When the binary prediction vector is empty, \<open>test\<close> returns nothing: it ends
  with an exception, and with the division by zero of line 58 whenever the AUC routine
  has accepted its input. No value stands in for the accuracy.
\<close>

theorem test_empty_predictions:
  assumes "binary_predictions new_threshold (predict dipnn s X_test) = []"
  shows "(\<exists>e. test dipnn lib s X_test Y_test new_threshold = Inl e)
       \<and> (\<forall>a. roc_auc_score lib (binarize_labels Y_test) (snd (predict dipnn s X_test)) = Inr a
            \<longrightarrow> test dipnn lib s X_test Y_test new_threshold = Inl ZeroDivisionError)"
  unfolding test_as_metrics test_metrics_result assms
  by (auto split: sum.splits)

theorem test_empty_predictions_witness:
  "binary_predictions (-1) (predict example_classifier (1/2) []) = []
   \<and> test example_classifier example_library (1/2) [] [] (-1) = Inl ValueError
   \<and> roc_auc_score (example_library\<lparr>roc_auc_score := \<lambda>labels scores. Inr (1/2)\<rparr>)
        (binarize_labels []) (snd (predict example_classifier (1/2) [])) = Inr (1/2)
   \<and> test example_classifier (example_library\<lparr>roc_auc_score := \<lambda>labels scores. Inr (1/2)\<rparr>)
        (1/2) [] [] (-1) = Inl ZeroDivisionError"
proof -
  have b: "binary_predictions (-1) (predict example_classifier (1/2) []) = []"
    by (simp add: binary_predictions_def example_classifier_def)
  have v: "test example_classifier example_library (1/2) [] [] (-1) = Inl ValueError"
    by (simp add: test_def example_classifier_def example_library_def test_metrics_def
          pairwise_auc_def binarize_labels_def Let_def)
  have r: "roc_auc_score (example_library\<lparr>roc_auc_score := \<lambda>labels scores. Inr (1/2)\<rparr>)
        (binarize_labels []) (snd (predict example_classifier (1/2) [])) = Inr (1/2)"
    by simp
  have z: "test example_classifier (example_library\<lparr>roc_auc_score := \<lambda>labels scores. Inr (1/2)\<rparr>)
        (1/2) [] [] (-1) = Inl ZeroDivisionError"
    using test_empty_predictions [OF b,
        of "example_library\<lparr>roc_auc_score := \<lambda>labels scores. Inr (1/2)\<rparr>" "[]"] r
    by blast
  show ?thesis using b v r z by blast
qed

section \<open>The loops and the list of runs\<close>

lemma metric_values_append:
  "metric_values label (xs @ ys) = metric_values label xs @ metric_values label ys"
  by (simp add: metric_values_def)

lemma metric_values_only_text:
  "only_text out \<Longrightarrow> metric_values label out = []"
  unfolding only_text_def metric_values_def
  by (induction out) (auto split: line.splits)

lemma only_text_append: "only_text (xs @ ys) \<longleftrightarrow> only_text xs \<and> only_text ys"
  by (simp add: only_text_def)

lemma test_only_text:
  "test dipnn lib s X_test Y_test thr = Inr (m, out) \<Longrightarrow> only_text out"
  unfolding test_as_metrics test_metrics_result
  by (auto simp: only_text_def split: sum.splits if_splits)

lemma timed_train_test_only_text:
  "timed_train_test dipnn lib thr split s w = Inr (r, s', w') \<Longrightarrow> only_text (run_printed r)"
  unfolding timed_train_test_def
  by (auto simp: Let_def split: prod.splits sum.splits dest: test_only_text)

lemma random_run_only_text:
  "random_run dipnn lib X Y ts thr s w = Inr (r, s', w') \<Longrightarrow> only_text (run_printed r)"
  unfolding random_run_def
  by (auto simp: Let_def split: prod.splits sum.splits dest: timed_train_test_only_text)

lemma fold_run_only_text:
  "fold_run dipnn lib X Y thr fld s w = Inr (r, s', w') \<Longrightarrow> only_text (run_printed r)"
  unfolding fold_run_def
  by (auto simp: Let_def split: prod.splits sum.splits dest: timed_train_test_only_text)

lemma random_runs_only_text:
  "random_runs dipnn lib X Y ts thr k s w = Inr (rs, s', w')
     \<Longrightarrow> only_text (concat (map run_printed rs))"
proof (induction k arbitrary: s w rs)
  case 0
  then show ?case by (simp add: only_text_def)
next
  case (Suc k)
  then show ?case
    by (auto simp: only_text_append split: sum.splits prod.splits dest: random_run_only_text)
qed

lemma fold_runs_only_text:
  "fold_runs dipnn lib X Y thr folds s w = Inr (rs, s', w')
     \<Longrightarrow> only_text (concat (map run_printed rs))"
proof (induction folds arbitrary: s w rs)
  case Nil
  then show ?case by (simp add: only_text_def)
next
  case (Cons fld folds)
  then show ?case
    by (auto simp: only_text_append split: sum.splits prod.splits dest: fold_run_only_text)
qed

lemma random_runs_length:
  "random_runs dipnn lib X Y ts thr k s w = Inr (rs, s', w') \<Longrightarrow> length rs = k"
  by (induction k arbitrary: s w rs) (auto split: sum.splits prod.splits)

lemma fold_runs_length:
  "fold_runs dipnn lib X Y thr folds s w = Inr (rs, s', w') \<Longrightarrow> length rs = length folds"
  by (induction folds arbitrary: s w rs) (auto split: sum.splits prod.splits)

lemma multiple_loop_runs:
  "multiple_loop dipnn lib X Y ts thr k st s w =
     (case random_runs dipnn lib X Y ts thr k s w of
        Inl e \<Rightarrow> Inl e
      | Inr (rs, s', w') \<Rightarrow> Inr (foldl (\<lambda>st r. accumulate r st) st rs, s', w'))"
  by (induction k arbitrary: st s w) (auto split: sum.splits prod.splits)

lemma fold_loop_runs:
  "fold_loop dipnn lib X Y thr folds st s w =
     (case fold_runs dipnn lib X Y thr folds s w of
        Inl e \<Rightarrow> Inl e
      | Inr (rs, s', w') \<Rightarrow> Inr (foldl (\<lambda>st r. accumulate_fold r st) st rs, s', w'))"
  by (induction folds arbitrary: st s w) (auto split: sum.splits prod.splits)

lemma accumulated:
  fixes st :: "'a totals_scheme"
  shows
  "sum_acc (foldl (\<lambda>st r. accumulate r st) st rs) = sum_acc st + sum_list (map run_acc rs)"
  "sum_TP_rate (foldl (\<lambda>st r. accumulate r st) st rs) = sum_TP_rate st + sum_list (map run_TP_rate rs)"
  "sum_TN_rate (foldl (\<lambda>st r. accumulate r st) st rs) = sum_TN_rate st + sum_list (map run_TN_rate rs)"
  "sum_roc_auc (foldl (\<lambda>st r. accumulate r st) st rs) = sum_roc_auc st + sum_list (map run_roc_auc rs)"
  "accuracy_list (foldl (\<lambda>st r. accumulate r st) st rs) = accuracy_list st @ map run_acc rs"
  "training_time (foldl (\<lambda>st r. accumulate r st) st rs) = training_time st @ map run_training_time rs"
  "test_time (foldl (\<lambda>st r. accumulate r st) st rs) = test_time st @ map run_test_time rs"
  "precision (foldl (\<lambda>st r. accumulate r st) st rs) =
     (if rs = [] then precision st else Some (run_precision (last rs)))"
  "recall (foldl (\<lambda>st r. accumulate r st) st rs) =
     (if rs = [] then recall st else Some (run_recall (last rs)))"
  "printed (foldl (\<lambda>st r. accumulate r st) st rs) = printed st @ concat (map run_printed rs)"
  by (induction rs arbitrary: st; simp add: accumulate_def)+

lemma accumulated_fold:
  "sum_acc (foldl (\<lambda>st r. accumulate_fold r st) st rs) = sum_acc st + sum_list (map run_acc rs)"
  "sum_TP_rate (foldl (\<lambda>st r. accumulate_fold r st) st rs) = sum_TP_rate st + sum_list (map run_TP_rate rs)"
  "sum_TN_rate (foldl (\<lambda>st r. accumulate_fold r st) st rs) = sum_TN_rate st + sum_list (map run_TN_rate rs)"
  "sum_roc_auc (foldl (\<lambda>st r. accumulate_fold r st) st rs) = sum_roc_auc st + sum_list (map run_roc_auc rs)"
  "accuracy_list (foldl (\<lambda>st r. accumulate_fold r st) st rs) = accuracy_list st @ map run_acc rs"
  "roc_auc_list (foldl (\<lambda>st r. accumulate_fold r st) st rs) = roc_auc_list st @ map run_roc_auc rs"
  "training_time (foldl (\<lambda>st r. accumulate_fold r st) st rs) = training_time st @ map run_training_time rs"
  "test_time (foldl (\<lambda>st r. accumulate_fold r st) st rs) = test_time st @ map run_test_time rs"
  "precision (foldl (\<lambda>st r. accumulate_fold r st) st rs) =
     (if rs = [] then precision st else Some (run_precision (last rs)))"
  "recall (foldl (\<lambda>st r. accumulate_fold r st) st rs) =
     (if rs = [] then recall st else Some (run_recall (last rs)))"
  "printed (foldl (\<lambda>st r. accumulate_fold r st) st rs) = printed st @ concat (map run_printed rs)"
  by (induction rs arbitrary: st; simp add: accumulate_fold_def accumulate_def)+

lemma sum_sq_dev_variance:
  "xs \<noteq> [] \<Longrightarrow> sum_sq_dev xs (sum_list xs / real (length xs)) / real (length xs)
     = population_variance xs"
  by (simp add: sum_sq_dev_def population_variance_def mean_def)

section \<open>The drivers in terms of their runs\<close>

lemma mean_of_runs:
  "length rs = n \<Longrightarrow> sum_list (map f rs) / real n = mean (map f rs)"
  by (simp add: mean_def)

lemma variance_of_runs:
  "length rs = n \<Longrightarrow> sum_sq_dev (map f rs) (mean (map f rs)) / real n
     = population_variance (map f rs)"
  by (simp add: sum_sq_dev_def population_variance_def)

lemma evaluate_multiple_times_result:
  assumes "0 < no_runs"
    and "random_runs dipnn lib X Y test_size new_threshold (nat no_runs) s w = Inr (rs, s', w')"
  shows "evaluate_multiple_times dipnn lib X Y no_runs test_size coefficients_threshold
           coeff_precision new_threshold s w =
         Inr ((mean (map run_acc rs),
               mean (map run_training_time rs), population_variance (map run_training_time rs),
               mean (map run_test_time rs), population_variance (map run_test_time rs),
               mean (map run_TP_rate rs), mean (map run_TN_rate rs), mean (map run_roc_auc rs)),
              concat (map run_printed rs) @
              [Text ''The model in the last iteration'',
               Text (get_the_model_representation dipnn s' coefficients_threshold coeff_precision),
               Metric ''Average accuracy: '' (mean (map run_acc rs)),
               Metric ''Variance of accuracy: '' (population_variance (map run_acc rs)),
               Metric ''Average true positive rate: '' (mean (map run_TP_rate rs)),
               Metric ''Average true negative rate: '' (mean (map run_TN_rate rs)),
               Metric ''Precision: '' (run_precision (last rs)),
               Metric ''Recall: '' (run_recall (last rs)),
               Metric ''Area Under the Receiver Operating Characteristic Score: ''
                 (mean (map run_roc_auc rs)),
               Metric ''Average training time: '' (mean (map run_training_time rs)),
               Metric ''Variance of training time: ''
                 (population_variance (map run_training_time rs)),
               Metric ''Average test time: '' (mean (map run_test_time rs)),
               Metric ''Variance of test time: '' (population_variance (map run_test_time rs))],
              s', w')"
proof -
  have len: "length rs = nat no_runs"
    using assms(2) by (rule random_runs_length)
  have ne: "rs \<noteq> []" using len assms(1) by auto
  have n: "real_of_int no_runs = real (nat no_runs)" "no_runs \<noteq> 0"
    using assms(1) by simp_all
  show ?thesis
    unfolding evaluate_multiple_times_def multiple_loop_runs assms(2) report_multiple_def
    by (simp add: accumulated no_totals_def Let_def ne n mean_of_runs[OF len]
          variance_of_runs[OF len] del: of_nat_nat)
qed

lemma evaluate_k_fold_result:
  assumes "0 < n_folds"
    and "kfold_split lib n_folds seed X = Inr folds"
    and "length folds = nat n_folds"
    and "fold_runs dipnn lib X Y new_threshold folds s w = Inr (rs, s', w')"
  shows "evaluate_k_fold dipnn lib X Y n_folds coefficients_threshold coeff_precision
           new_threshold seed s w =
         Inr ((mean (map run_acc rs),
               mean (map run_training_time rs), population_variance (map run_training_time rs),
               mean (map run_test_time rs), population_variance (map run_test_time rs),
               mean (map run_TP_rate rs), mean (map run_TN_rate rs), mean (map run_roc_auc rs)),
              concat (map run_printed rs) @
              [Text ''The model in the last iteration'',
               Text (get_the_model_representation dipnn s' coefficients_threshold coeff_precision),
               Metric ''Average accuracy: '' (mean (map run_acc rs)),
               Metric ''Variance of accuracy: '' (population_variance (map run_acc rs)),
               Metric ''Average true positive rate: '' (mean (map run_TP_rate rs)),
               Metric ''Average true negative rate: '' (mean (map run_TN_rate rs)),
               Metric ''Precision: '' (run_precision (last rs)),
               Metric ''Recall: '' (run_recall (last rs)),
               Metric ''Average Area Under the Receiver Operating Characteristic Score: ''
                 (mean (map run_roc_auc rs)),
               Metric ''Variance of Area Under the Receiver Operating Characteristic Score: ''
                 (population_variance (map run_roc_auc rs)),
               Metric ''Average training time: '' (mean (map run_training_time rs)),
               Metric ''Variance of training time: ''
                 (population_variance (map run_training_time rs)),
               Metric ''Average test time: '' (mean (map run_test_time rs)),
               Metric ''Variance of test time: '' (population_variance (map run_test_time rs))],
              s', w')"
proof -
  have len: "length rs = nat n_folds"
    using fold_runs_length[OF assms(4)] assms(3) by simp
  have ne: "rs \<noteq> []" using len assms(1) by auto
  have n: "real_of_int n_folds = real (nat n_folds)" "n_folds \<noteq> 0"
    using assms(1) by simp_all
  show ?thesis
    by (simp add: evaluate_k_fold_def assms(2) fold_loop_runs assms(4) report_k_fold_def
          accumulated_fold no_kfold_totals_def Let_def ne n mean_of_runs[OF len]
          variance_of_runs[OF len] del: of_nat_nat)
qed

section \<open>The drivers on the example data\<close>

lemma example_classifier_ops:
  "set_to_default example_classifier s = 1/2"
  "train example_classifier X Y s = s"
  by (simp_all add: example_classifier_def)

lemma example_library_ops:
  "roc_auc_score example_library = pairwise_auc"
  "time example_library w = (real (w * w), Suc w)"
  "train_test_split example_library X Y ts w =
     (if X = [] then Inl ValueError
      else Inr ((drop 2 (rotate w X), take 2 (rotate w X),
                 drop 2 (rotate w Y), take 2 (rotate w Y)), Suc w))"
  "kfold_split example_library n_splits seed X =
     (if n_splits = 2 \<and> length X = 4 then Inr [([2, 3], [0, 1]), ([0, 1], [3, 2])]
      else Inl ValueError)"
  by (simp_all add: example_library_def)

lemma example_random_run_1:
  "random_run example_classifier example_library example_X example_Y (1/2) (-1) 0 0
     = Inr (\<lparr>run_training_time = 3, run_test_time = 7, run_acc = 1,
          run_TP_rate = 1, run_TN_rate = 1, run_precision = 1,
          run_recall = 1, run_roc_auc = 1, run_printed = []\<rparr>, 1/2, 5)"
  by (simp add: random_run_def timed_train_test_def example_classifier_ops
        example_library_ops example_X_def example_Y_def test_def example_classifier_def
        first_feature_def test_metrics_def pairwise_auc_def tally_def
        no_counts_def binarize_labels_def Let_def
        eval_nat_numeral)

lemma example_random_run_2:
  "random_run example_classifier example_library example_X example_Y (1/2) (-1) (1/2) 5
     = Inr (\<lparr>run_training_time = 13, run_test_time = 17, run_acc = 1/2,
          run_TP_rate = 0, run_TN_rate = 1, run_precision = 0,
          run_recall = 0, run_roc_auc = 1,
          run_printed = [Text ''No true positive examples were found!'']\<rparr>, 1/2, 10)"
  by (simp add: random_run_def timed_train_test_def example_classifier_ops
        example_library_ops example_X_def example_Y_def test_def example_classifier_def
        first_feature_def test_metrics_def pairwise_auc_def tally_def
        no_counts_def binarize_labels_def Let_def
        eval_nat_numeral)

lemma example_fold_run_1:
  "fold_run example_classifier example_library example_X example_Y (-1) ([2, 3], [0, 1]) 0 0
     = Inr (\<lparr>run_training_time = 1, run_test_time = 5, run_acc = 1,
          run_TP_rate = 1, run_TN_rate = 1, run_precision = 1,
          run_recall = 1, run_roc_auc = 1, run_printed = []\<rparr>, 1/2, 4)"
  by (simp add: fold_run_def take_rows_def timed_train_test_def example_classifier_ops
        example_library_ops example_X_def example_Y_def test_def example_classifier_def
        first_feature_def test_metrics_def pairwise_auc_def tally_def
        no_counts_def binarize_labels_def Let_def
        eval_nat_numeral)

lemma example_fold_run_2:
  "fold_run example_classifier example_library example_X example_Y (-1) ([0, 1], [3, 2]) (1/2) 4
     = Inr (\<lparr>run_training_time = 9, run_test_time = 13, run_acc = 1/2,
          run_TP_rate = 0, run_TN_rate = 1, run_precision = 0,
          run_recall = 0, run_roc_auc = 1,
          run_printed = [Text ''No true positive examples were found!'']\<rparr>, 1/2, 8)"
  by (simp add: fold_run_def take_rows_def timed_train_test_def example_classifier_ops
        example_library_ops example_X_def example_Y_def test_def example_classifier_def
        first_feature_def test_metrics_def pairwise_auc_def tally_def
        no_counts_def binarize_labels_def Let_def
        eval_nat_numeral)

lemma example_random_run_3:
  "random_run example_classifier example_library example_X example_Y (1/2) (-1) (1/2) 10
     = Inr (\<lparr>run_training_time = 23, run_test_time = 27, run_acc = 1/2,
          run_TP_rate = 0, run_TN_rate = 1, run_precision = 0,
          run_recall = 0, run_roc_auc = 1,
          run_printed = [Text ''No true positive examples were found!'']\<rparr>, 1/2, 15)"
  by (simp add: random_run_def timed_train_test_def example_classifier_ops
        example_library_ops example_X_def example_Y_def test_def example_classifier_def
        first_feature_def test_metrics_def pairwise_auc_def tally_def
        no_counts_def binarize_labels_def Let_def
        eval_nat_numeral)

lemma example_random_runs:
  "random_runs example_classifier example_library example_X example_Y (1/2) (-1) (nat 3) 0 0
     = Inr (example_runs, 1/2, 15)"
  by (simp add: numeral_3_eq_3 example_random_run_1 example_random_run_2
        example_random_run_3 example_runs_def)

lemma example_folds:
  "kfold_split example_library 2 30 example_X = Inr [([2, 3], [0, 1]), ([0, 1], [3, 2])]"
  by (simp add: example_library_ops example_X_def)

lemma example_fold_runs:
  "fold_runs example_classifier example_library example_X example_Y (-1)
     [([2, 3], [0, 1]), ([0, 1], [3, 2])] 0 0
     = Inr (example_fold_runs, 1/2, 8)"
  by (simp only: fold_runs.simps example_fold_run_1 example_fold_run_2 example_fold_runs_def
        sum.case prod.case)

lemma example_statistics:
  "mean (map run_acc example_runs) = 2/3"
  "population_variance (map run_acc example_runs) = 1/18"
  "mean (map run_training_time example_runs) = 13"
  "population_variance (map run_training_time example_runs) = 200/3"
  "mean (map run_test_time example_runs) = 17"
  "population_variance (map run_test_time example_runs) = 200/3"
  "mean (map run_TP_rate example_runs) = 1/3"
  "mean (map run_TN_rate example_runs) = 1"
  "mean (map run_roc_auc example_runs) = 1"
  "run_precision (last example_runs) = 0"
  "run_recall (last example_runs) = 0"
  by (simp_all add: mean_def population_variance_def example_runs_def power2_eq_square)

lemma example_fold_statistics:
  "mean (map run_acc example_fold_runs) = 3/4"
  "population_variance (map run_acc example_fold_runs) = 1/16"
  "mean (map run_training_time example_fold_runs) = 5"
  "population_variance (map run_training_time example_fold_runs) = 16"
  "mean (map run_test_time example_fold_runs) = 9"
  "population_variance (map run_test_time example_fold_runs) = 16"
  "mean (map run_TP_rate example_fold_runs) = 1/2"
  "mean (map run_TN_rate example_fold_runs) = 1"
  "mean (map run_roc_auc example_fold_runs) = 1"
  "population_variance (map run_roc_auc example_fold_runs) = 0"
  "run_precision (last example_fold_runs) = 0"
  "run_recall (last example_fold_runs) = 0"
  "mean (map run_precision example_fold_runs) = 1/2"
  by (simp_all add: mean_def population_variance_def example_fold_runs_def power2_eq_square)

lemma metric_values_report:
  "metric_values label (Text t # out) = metric_values label out"
  "metric_values label (Metric l v # out) = (if l = label then [v] else []) @ metric_values label out"
  "metric_values label [] = []"
  by (simp_all add: metric_values_def)

section \<open>Properties of the drivers\<close>

text \<open>
  The hypotheses below name the list of runs: the iterations all went through. For
  \<open>evaluate_k_fold\<close> they also say that the splitter yields \<open>n_folds\<close> folds, as
  scikit-learn's \<open>KFold\<close> does.
\<close>

lemma multiple_times_reported:
  assumes "0 < no_runs"
    and "random_runs dipnn lib X Y test_size new_threshold (nat no_runs) s w = Inr (rs, s', w')"
  shows "\<exists>out. evaluate_multiple_times dipnn lib X Y no_runs test_size coefficients_threshold
                 coeff_precision new_threshold s w =
               Inr ((mean (map run_acc rs),
                     mean (map run_training_time rs),
                     population_variance (map run_training_time rs),
                     mean (map run_test_time rs),
                     population_variance (map run_test_time rs),
                     mean (map run_TP_rate rs), mean (map run_TN_rate rs),
                     mean (map run_roc_auc rs)), out, s', w')
             \<and> metric_values ''Variance of accuracy: '' out
                 = [population_variance (map run_acc rs)]
             \<and> metric_values ''Variance of training time: '' out
                 = [population_variance (map run_training_time rs)]
             \<and> metric_values ''Variance of test time: '' out
                 = [population_variance (map run_test_time rs)]
             \<and> metric_values ''Precision: '' out = [run_precision (last rs)]
             \<and> metric_values ''Recall: '' out = [run_recall (last rs)]"
proof -
  have t: "metric_values label (concat (map run_printed rs)) = []" for label
    using random_runs_only_text[OF assms(2)] by (rule metric_values_only_text)
  show ?thesis
    unfolding evaluate_multiple_times_result[OF assms]
    by (simp add: metric_values_append t metric_values_report)
qed

lemma k_fold_reported:
  assumes "0 < n_folds"
    and "kfold_split lib n_folds seed X = Inr folds"
    and "length folds = nat n_folds"
    and "fold_runs dipnn lib X Y new_threshold folds s w = Inr (rs, s', w')"
  shows "\<exists>out. evaluate_k_fold dipnn lib X Y n_folds coefficients_threshold coeff_precision
                 new_threshold seed s w =
               Inr ((mean (map run_acc rs),
                     mean (map run_training_time rs),
                     population_variance (map run_training_time rs),
                     mean (map run_test_time rs),
                     population_variance (map run_test_time rs),
                     mean (map run_TP_rate rs), mean (map run_TN_rate rs),
                     mean (map run_roc_auc rs)), out, s', w')
             \<and> metric_values ''Variance of accuracy: '' out
                 = [population_variance (map run_acc rs)]
             \<and> metric_values
                   ''Variance of Area Under the Receiver Operating Characteristic Score: '' out
                 = [population_variance (map run_roc_auc rs)]
             \<and> metric_values ''Variance of training time: '' out
                 = [population_variance (map run_training_time rs)]
             \<and> metric_values ''Variance of test time: '' out
                 = [population_variance (map run_test_time rs)]
             \<and> metric_values ''Precision: '' out = [run_precision (last rs)]
             \<and> metric_values ''Recall: '' out = [run_recall (last rs)]"
proof -
  have t: "metric_values label (concat (map run_printed rs)) = []" for label
    using fold_runs_only_text[OF assms(4)] by (rule metric_values_only_text)
  show ?thesis
    unfolding evaluate_k_fold_result[OF assms]
    by (simp add: metric_values_append t metric_values_report)
qed















text \<open>
  C7. Both drivers return the same eight values: the average accuracy, the average and
  the variance of the training time, the average and the variance of the test time, the
  average TP-rate, the average TN-rate and the average AUC. Precision and recall are
  not among them and are not averaged: the one precision and the one recall that are
  printed are those of the last iteration's call of \<open>test\<close>.
\<close>

theorem returned_tuple:
  "(0 < no_runs
      \<and> random_runs dipnn lib X Y test_size new_threshold (nat no_runs) s w = Inr (rs, s', w')
    \<longrightarrow> (\<exists>out.
            evaluate_multiple_times dipnn lib X Y no_runs test_size coefficients_threshold
                coeff_precision new_threshold s w =
              Inr ((mean (map run_acc rs),
                    mean (map run_training_time rs),
                    population_variance (map run_training_time rs),
                    mean (map run_test_time rs),
                    population_variance (map run_test_time rs),
                    mean (map run_TP_rate rs), mean (map run_TN_rate rs),
                    mean (map run_roc_auc rs)), out, s', w')
          \<and> metric_values ''Precision: '' out = [run_precision (last rs)]
          \<and> metric_values ''Recall: '' out = [run_recall (last rs)]))
 \<and> (0 < n_folds
      \<and> kfold_split lib n_folds seed X = Inr folds \<and> length folds = nat n_folds
      \<and> fold_runs dipnn lib X Y new_threshold folds s w = Inr (rs', s'', w'')
    \<longrightarrow> (\<exists>out.
            evaluate_k_fold dipnn lib X Y n_folds coefficients_threshold coeff_precision
                new_threshold seed s w =
              Inr ((mean (map run_acc rs'),
                    mean (map run_training_time rs'),
                    population_variance (map run_training_time rs'),
                    mean (map run_test_time rs'),
                    population_variance (map run_test_time rs'),
                    mean (map run_TP_rate rs'), mean (map run_TN_rate rs'),
                    mean (map run_roc_auc rs')), out, s'', w'')
          \<and> metric_values ''Precision: '' out = [run_precision (last rs')]
          \<and> metric_values ''Recall: '' out = [run_recall (last rs')]))"
proof -
  have a: "\<exists>out.
            evaluate_multiple_times dipnn lib X Y no_runs test_size coefficients_threshold
                coeff_precision new_threshold s w =
              Inr ((mean (map run_acc rs),
                    mean (map run_training_time rs),
                    population_variance (map run_training_time rs),
                    mean (map run_test_time rs),
                    population_variance (map run_test_time rs),
                    mean (map run_TP_rate rs), mean (map run_TN_rate rs),
                    mean (map run_roc_auc rs)), out, s', w')
          \<and> metric_values ''Precision: '' out = [run_precision (last rs)]
          \<and> metric_values ''Recall: '' out = [run_recall (last rs)]"
    if h: "0 < no_runs"
      "random_runs dipnn lib X Y test_size new_threshold (nat no_runs) s w = Inr (rs, s', w')"
    using multiple_times_reported[OF h, of coefficients_threshold coeff_precision] by blast
  have b: "\<exists>out.
            evaluate_k_fold dipnn lib X Y n_folds coefficients_threshold coeff_precision
                new_threshold seed s w =
              Inr ((mean (map run_acc rs'),
                    mean (map run_training_time rs'),
                    population_variance (map run_training_time rs'),
                    mean (map run_test_time rs'),
                    population_variance (map run_test_time rs'),
                    mean (map run_TP_rate rs'), mean (map run_TN_rate rs'),
                    mean (map run_roc_auc rs')), out, s'', w'')
          \<and> metric_values ''Precision: '' out = [run_precision (last rs')]
          \<and> metric_values ''Recall: '' out = [run_recall (last rs')]"
    if h: "0 < n_folds" "kfold_split lib n_folds seed X = Inr folds"
      "length folds = nat n_folds"
      "fold_runs dipnn lib X Y new_threshold folds s w = Inr (rs', s'', w'')"
    using k_fold_reported[OF h, of coefficients_threshold coeff_precision] by blast
  show ?thesis using a b by blast
qed

theorem returned_tuple_witness:
  "0 < (3::int)
   \<and> random_runs example_classifier example_library example_X example_Y (1/2) (-1) (nat 3) 0 0
       = Inr (example_runs, 1/2, 15)
   \<and> (\<exists>out.
         evaluate_multiple_times example_classifier example_library example_X example_Y
             3 (1/2) 0 (-1) (-1) 0 0 =
           Inr ((2/3, 13, 200/3, 17, 200/3, 1/3, 1, 1), out, 1/2, 15)
       \<and> metric_values ''Precision: '' out = [0]
       \<and> metric_values ''Recall: '' out = [0])
   \<and> 0 < (2::int)
   \<and> kfold_split example_library 2 30 example_X = Inr [([2, 3], [0, 1]), ([0, 1], [3, 2])]
   \<and> length [([2, 3], [0, 1]), ([0, 1], [3, 2 :: nat])] = nat 2
   \<and> fold_runs example_classifier example_library example_X example_Y (-1)
         [([2, 3], [0, 1]), ([0, 1], [3, 2])] 0 0 = Inr (example_fold_runs, 1/2, 8)
   \<and> (\<exists>out.
         evaluate_k_fold example_classifier example_library example_X example_Y
             2 0 (-1) (-1) 30 0 0 =
           Inr ((3/4, 5, 16, 9, 16, 1/2, 1, 1), out, 1/2, 8)
       \<and> metric_values ''Precision: '' out = [0]
       \<and> metric_values ''Recall: '' out = [0])
   \<and> mean (map run_precision example_fold_runs) = 1/2"
proof -
  have h1: "0 < (3::int)
      \<and> random_runs example_classifier example_library example_X example_Y (1/2) (-1) (nat 3) 0 0
          = Inr (example_runs, 1/2, 15)"
    using example_random_runs by simp
  have l: "length [([2, 3], [0, 1]), ([0, 1], [3, 2 :: nat])] = nat 2"
    by simp
  have h2: "0 < (2::int)
      \<and> kfold_split example_library 2 30 example_X = Inr [([2, 3], [0, 1]), ([0, 1], [3, 2])]
      \<and> length [([2, 3], [0, 1]), ([0, 1], [3, 2 :: nat])] = nat 2
      \<and> fold_runs example_classifier example_library example_X example_Y (-1)
            [([2, 3], [0, 1]), ([0, 1], [3, 2])] 0 0 = Inr (example_fold_runs, 1/2, 8)"
    using example_folds example_fold_runs l by simp
  note T = returned_tuple [where no_runs = 3 and dipnn = example_classifier
      and lib = example_library and X = example_X and Y = example_Y and test_size = "1/2"
      and new_threshold = "-1" and s = 0 and w = 0 and rs = example_runs and s' = "1/2"
      and w' = 15 and coefficients_threshold = 0 and coeff_precision = "-1"
      and n_folds = 2 and seed = 30 and folds = "[([2, 3], [0, 1]), ([0, 1], [3, 2])]"
      and rs' = example_fold_runs and s'' = "1/2" and w'' = 8]
  note a = T [THEN conjunct1, THEN mp, OF h1, unfolded example_statistics]
  note b = T [THEN conjunct2, THEN mp, OF h2, unfolded example_fold_statistics]
  have m: "mean (map run_precision example_fold_runs) = 1/2"
    by (rule example_fold_statistics)
  show ?thesis using h1 h2 a b m by blast
qed

text \<open>
  C10. With \<open>no_runs = 0\<close> the loop of \<open>evaluate_multiple_times\<close> runs zero
  times, leaving \<open>precision\<close> and \<open>recall\<close> unbound, and the first aggregate
  divides by zero: the call ends with ZeroDivisionError and returns nothing.
\<close>

theorem no_runs_zero:
  "evaluate_multiple_times dipnn lib X Y 0 test_size coefficients_threshold
       coeff_precision new_threshold s w = Inl ZeroDivisionError
   \<and> multiple_loop dipnn lib X Y test_size new_threshold (nat 0) no_totals s w
       = Inr (no_totals, s, w)
   \<and> precision no_totals = None \<and> recall no_totals = None"
  by (simp add: evaluate_multiple_times_def report_multiple_def no_totals_def)

theorem no_runs_zero_witness:
  "evaluate_multiple_times example_classifier example_library example_X example_Y
       0 (1/2) 0 (-1) (-1) 0 0 = Inl ZeroDivisionError"
  using no_runs_zero [of example_classifier example_library example_X example_Y
      "1/2" 0 "-1" "-1" 0 0]
  by blast

end
